theory Spec2Isabelle
  imports Complex_Main "HOL-Library.AList"
begin

section \<open>The pipeline-service collector (collector/collector.go)\<close>

text \<open>
  The Go file defines one struct, \<^verbatim>\<open>PipelineServiceCollector\<close>, its constructor and the
  two methods of the \<^verbatim>\<open>prometheus.Collector\<close> interface. Everything it touches is
  made explicit here: the records written through the logger, the contents of the two
  gauge vectors, the values sent on the channel handed to \<^verbatim>\<open>Describe\<close> and
  \<^verbatim>\<open>Collect\<close>, and a panic that ends a call.
\<close>

subsection \<open>Pipeline runs and errors\<close>

text \<open>
  \<^verbatim>\<open>collect\<close> reads two fields of a pipeline run, \<^verbatim>\<open>Name\<close> and \<^verbatim>\<open>UID\<close>. The three
  timestamps are read only by the duration calculators, which are not part of
  collector.go; each is optional, a point in time counted in seconds.
\<close>

record PipelineRun =
  Name :: string
  UID :: string
  creationTimestamp :: "real option"
  startTime :: "real option"
  completionTime :: "real option"

text \<open>
  A Go \<^verbatim>\<open>error\<close> value. The constructors are the failure kinds the specification
  names; \<^verbatim>\<open>collect\<close> itself only tests an error against \<^verbatim>\<open>nil\<close> and logs it.
\<close>

datatype error = SourceUnavailable string | MissingTimestamp | InvalidOrdering

subsection \<open>The logger\<close>

text \<open>
  A go-kit logger receives key/value records. The model keeps the records written so
  far, oldest first. \<^verbatim>\<open>level.Error(logger)\<close> puts the pair level=error in front of the
  pairs of each record logged through it.
\<close>

datatype logval = Str string | Err error

type_synonym logrecord = "(string \<times> logval) list"

type_synonym Logger = "logrecord list"

definition level_Error_Log :: "Logger \<Rightarrow> logrecord \<Rightarrow> Logger" where
  "level_Error_Log lg keyvals = lg @ [(''level'', Str ''error'') # keyvals]"

subsection \<open>Label values\<close>

text \<open>
  A Go string is a sequence of bytes, and so is a \<^typ>\<open>string\<close> here.
  \<^verbatim>\<open>utf8.ValidString\<close> accepts the well-formed UTF-8 sequences: one byte below 0x80;
  a lead byte 0xC2 to 0xDF and one continuation byte; a lead byte 0xE0 to 0xEF and two;
  a lead byte 0xF0 to 0xF4 and three; the first continuation byte narrowed after 0xE0,
  0xED, 0xF0 and 0xF4 so that overlong forms, surrogates and code points above 0x10FFFF
  are refused.
\<close>

definition continuation :: "nat \<Rightarrow> bool" where
  "continuation b = (0x80 \<le> b \<and> b \<le> 0xBF)"

fun valid_bytes :: "nat list \<Rightarrow> bool" where
  "valid_bytes [] = True"
| "valid_bytes (b0 # bs) =
     (if b0 < 0x80 then valid_bytes bs
      else if 0xC2 \<le> b0 \<and> b0 \<le> 0xDF then
        (case bs of
           b1 # bs' \<Rightarrow> continuation b1 \<and> valid_bytes bs'
         | _ \<Rightarrow> False)
      else if 0xE0 \<le> b0 \<and> b0 \<le> 0xEF then
        (case bs of
           b1 # b2 # bs' \<Rightarrow>
             (if b0 = 0xE0 then 0xA0 else 0x80) \<le> b1 \<and>
             b1 \<le> (if b0 = 0xED then 0x9F else 0xBF) \<and>
             continuation b2 \<and> valid_bytes bs'
         | _ \<Rightarrow> False)
      else if 0xF0 \<le> b0 \<and> b0 \<le> 0xF4 then
        (case bs of
           b1 # b2 # b3 # bs' \<Rightarrow>
             (if b0 = 0xF0 then 0x90 else 0x80) \<le> b1 \<and>
             b1 \<le> (if b0 = 0xF4 then 0x8F else 0xBF) \<and>
             continuation b2 \<and> continuation b3 \<and> valid_bytes bs'
         | _ \<Rightarrow> False)
      else False)"

definition ValidString :: "string \<Rightarrow> bool" where
  "ValidString s = valid_bytes (map of_char s)"

subsection \<open>Gauge vectors\<close>

text \<open>
  \<^verbatim>\<open>prometheus.NewGaugeVec(opts, labelNames)\<close> builds a vector with a descriptor (the
  metric name, the help text, the label names) and no children.
  \<^verbatim>\<open>WithLabelValues(lvs...)\<close> validates the label values: there must be as many as
  the vector has label names, and each must be valid UTF-8. If they are not, it panics
  and the vector is as before. Otherwise it returns the child for the label values,
  creating it when it is absent, and \<^verbatim>\<open>Set(v)\<close> stores \<open>v\<close> in it: an upsert keyed by
  the label values.
  \<^verbatim>\<open>Collect(ch)\<close> sends one metric per child on the channel. The library walks a Go
  map there, so the order among the children of one vector is not fixed; the model lists
  them in the order of their creation, and no statement below depends on that order.
\<close>

datatype panic = InconsistentCardinality | InvalidLabelValue string

record GaugeOpts =
  opts_Name :: string
  opts_Help :: string

record Desc =
  fqName :: string
  helpText :: string
  variableLabels :: "string list"

record GaugeVec =
  desc :: Desc
  metrics :: "(string list \<times> real) list"

record Metric =
  metric_desc :: Desc
  labelValues :: "string list"
  gauge_value :: real

definition NewGaugeVec :: "GaugeOpts \<Rightarrow> string list \<Rightarrow> GaugeVec" where
  "NewGaugeVec opts labelNames =
     \<lparr>desc = \<lparr>fqName = opts_Name opts, helpText = opts_Help opts, variableLabels = labelNames\<rparr>,
      metrics = []\<rparr>"

definition validateLabelValues :: "string list \<Rightarrow> nat \<Rightarrow> panic option" where
  "validateLabelValues vals expectedNumberOfValues =
     (if length vals \<noteq> expectedNumberOfValues then Some InconsistentCardinality
      else (case find (\<lambda>val. \<not> ValidString val) vals of
              Some val \<Rightarrow> Some (InvalidLabelValue val)
            | None \<Rightarrow> None))"

definition WithLabelValues_Set :: "GaugeVec \<Rightarrow> string list \<Rightarrow> real \<Rightarrow> panic + GaugeVec" where
  "WithLabelValues_Set g lvs v =
     (case validateLabelValues lvs (length (variableLabels (desc g))) of
        Some p \<Rightarrow> Inl p
      | None \<Rightarrow> Inr (g\<lparr>metrics := AList.update lvs v (metrics g)\<rparr>))"

definition GaugeVec_Describe :: "GaugeVec \<Rightarrow> Desc list \<Rightarrow> Desc list" where
  "GaugeVec_Describe g ch = ch @ [desc g]"

definition GaugeVec_Collect :: "GaugeVec \<Rightarrow> Metric list \<Rightarrow> Metric list" where
  "GaugeVec_Collect g ch =
     ch @ map (\<lambda>(lvs, v). \<lparr>metric_desc = desc g, labelValues = lvs, gauge_value = v\<rparr>)
            (metrics g)"

text \<open>The value a vector holds for a label tuple, if it has a child for it.\<close>

definition gauge_at :: "GaugeVec \<Rightarrow> string list \<Rightarrow> real option" where
  "gauge_at g lvs = map_of (metrics g) lvs"

subsection \<open>The collector\<close>

text \<open>
  The struct has the fields \<^verbatim>\<open>logger\<close>, \<^verbatim>\<open>mutex\<close>, \<^verbatim>\<open>durationScheduled\<close> and
  \<^verbatim>\<open>durationCompleted\<close>. The mutex holds no data: it makes a pass atomic, and a pass
  is modelled as one function from the state before it to the state after it.
\<close>

record PipelineServiceCollector =
  logger :: Logger
  durationScheduled :: GaugeVec
  durationCompleted :: GaugeVec

definition NewCollector :: "Logger \<Rightarrow> PipelineServiceCollector \<times> error option" where
  "NewCollector lg =
     (let durationScheduled = NewGaugeVec
            \<lparr>opts_Name = ''pipelinerun_duration_scheduled_seconds'',
             opts_Help = ''Duration in seconds for a PipelineRun to be scheduled.''\<rparr>
            [''name'', ''uid''];
          durationCompleted = NewGaugeVec
            \<lparr>opts_Name = ''pipelinerun_duration_completed_seconds'',
             opts_Help = ''Duration in seconds for a PipelineRun to complete.''\<rparr>
            [''name'', ''uid'']
      in (\<lparr>logger = lg,
           durationScheduled = durationScheduled,
           durationCompleted = durationCompleted\<rparr>, None))"

definition Describe :: "PipelineServiceCollector \<Rightarrow> Desc list \<Rightarrow> Desc list" where
  "Describe c ch = GaugeVec_Describe (durationCompleted c) (GaugeVec_Describe (durationScheduled c) ch)"

text \<open>
  The two calculators and \<^verbatim>\<open>getPipelineRuns\<close> are called by \<^verbatim>\<open>collect\<close> and defined
  elsewhere, so \<^verbatim>\<open>collect\<close> takes them as parameters. A calculator returns a Go pair
  \<^verbatim>\<open>(float64, error)\<close>: a number and an error that is \<open>None\<close> for \<^verbatim>\<open>nil\<close>; it is
  taken to return, as the specification has it fail with an error and not panic. Whatever
  else a calculator reads or changes is the world \<open>'w\<close>, which a call takes and gives
  back; \<^verbatim>\<open>collect\<close> hands the world from one call to the next and does nothing else
  with it, so that the world after a pass tells which calls were made, and in which
  order. The outcome of \<^verbatim>\<open>getPipelineRuns()\<close> in a pass is \<open>Inl err\<close> when the error
  is not \<^verbatim>\<open>nil\<close> and \<open>Inr items\<close>, the \<^verbatim>\<open>Items\<close> of the list, otherwise.
\<close>

type_synonym 'w calculator = "PipelineRun \<Rightarrow> 'w \<Rightarrow> (real \<times> error option) \<times> 'w"

text \<open>
  The body of the \<^verbatim>\<open>for\<close> loop of \<^verbatim>\<open>collect\<close>, for one pipeline run: the collector
  and the world after it, and the panic that ended it, if one did. Line 88 may panic,
  and then line 89 is not reached; line 89 may panic after line 88 has set its gauge.
\<close>

definition collect_item ::
  "'w calculator \<Rightarrow> 'w calculator \<Rightarrow> PipelineRun \<Rightarrow> PipelineServiceCollector \<Rightarrow> 'w \<Rightarrow>
   PipelineServiceCollector \<times> 'w \<times> panic option"
where
  "collect_item calcScheduled calcCompleted pipelineRun c w =
     (let ((scheduledDuration, err), w) = calcScheduled pipelineRun w;
          c = (case err of
                 Some e \<Rightarrow> c\<lparr>logger := level_Error_Log (logger c)
                   [(''msg'', Str ''Error while calculating the scheduled time of a PipelineRun: ''),
                    (''err'', Err e)]\<rparr>
               | None \<Rightarrow> c);
          ((completedDuration, err), w) = calcCompleted pipelineRun w;
          c = (case err of
                 Some e \<Rightarrow> c\<lparr>logger := level_Error_Log (logger c)
                   [(''msg'', Str ''Error while calculating the completion time of a PipelineRun: ''),
                    (''err'', Err e)]\<rparr>
               | None \<Rightarrow> c)
      in case WithLabelValues_Set (durationScheduled c)
                [Name pipelineRun, UID pipelineRun] scheduledDuration of
           Inl p \<Rightarrow> (c, w, Some p)
         | Inr g \<Rightarrow>
             (let c = c\<lparr>durationScheduled := g\<rparr>
              in case WithLabelValues_Set (durationCompleted c)
                        [Name pipelineRun, UID pipelineRun] completedDuration of
                   Inl p \<Rightarrow> (c, w, Some p)
                 | Inr g \<Rightarrow> (c\<lparr>durationCompleted := g\<rparr>, w, None)))"

text \<open>The loop: a panic in the body ends it.\<close>

fun collect_items ::
  "'w calculator \<Rightarrow> 'w calculator \<Rightarrow> PipelineRun list \<Rightarrow> PipelineServiceCollector \<Rightarrow> 'w \<Rightarrow>
   PipelineServiceCollector \<times> 'w \<times> panic option"
where
  "collect_items calcScheduled calcCompleted [] c w = (c, w, None)"
| "collect_items calcScheduled calcCompleted (pipelineRun # items) c w =
     (case collect_item calcScheduled calcCompleted pipelineRun c w of
        (c, w, Some p) \<Rightarrow> (c, w, Some p)
      | (c, w, None) \<Rightarrow> collect_items calcScheduled calcCompleted items c w)"

text \<open>
  \<^verbatim>\<open>collect(ch)\<close>: the collector, the channel and the world after the call, and how it
  ended: \<open>Inl p\<close> is a panic, \<open>Inr err\<close> the error returned.
\<close>

definition collect ::
  "'w calculator \<Rightarrow> 'w calculator \<Rightarrow> error + PipelineRun list \<Rightarrow>
   PipelineServiceCollector \<Rightarrow> Metric list \<Rightarrow> 'w \<Rightarrow>
   PipelineServiceCollector \<times> Metric list \<times> 'w \<times> (panic + error option)"
where
  "collect calcScheduled calcCompleted getPipelineRuns c ch w =
     (case getPipelineRuns of
        Inl err \<Rightarrow>
          (c\<lparr>logger := level_Error_Log (logger c)
               [(''msg'', Str ''Error while fetching PipelineRuns''), (''err'', Err err)]\<rparr>,
           ch, w, Inr (Some err))
      | Inr items \<Rightarrow>
          (case collect_items calcScheduled calcCompleted items c w of
             (c, w, Some p) \<Rightarrow> (c, ch, w, Inl p)
           | (c, w, None) \<Rightarrow>
               (let ch = GaugeVec_Collect (durationScheduled c) ch;
                    ch = GaugeVec_Collect (durationCompleted c) ch
                in (c, ch, w, Inr None))))"

text \<open>
  \<^verbatim>\<open>Collect(ch)\<close> has no result in Go: it locks, runs \<^verbatim>\<open>collect\<close>, logs the error
  \<^verbatim>\<open>collect\<close> returned if there is one, and unlocks on the way out. It does not
  recover: a panic of \<^verbatim>\<open>collect\<close> goes on to the caller, which is the last component.
\<close>

definition Collect_pass ::
  "'w calculator \<Rightarrow> 'w calculator \<Rightarrow> error + PipelineRun list \<Rightarrow>
   PipelineServiceCollector \<Rightarrow> Metric list \<Rightarrow> 'w \<Rightarrow>
   PipelineServiceCollector \<times> Metric list \<times> 'w \<times> panic option"
where
  "Collect_pass calcScheduled calcCompleted getPipelineRuns c ch w =
     (case collect calcScheduled calcCompleted getPipelineRuns c ch w of
        (c, ch, w, Inl p) \<Rightarrow> (c, ch, w, Some p)
      | (c, ch, w, Inr (Some err)) \<Rightarrow>
          (c\<lparr>logger := level_Error_Log (logger c)
               [(''msg'', Str ''error collecting pipeline-service metrics''), (''error'', Err err)]\<rparr>,
           ch, w, None)
      | (c, ch, w, Inr None) \<Rightarrow> (c, ch, w, None))"

subsection \<open>The duration calculators\<close>

text \<open>
  Modelled from the spec: \<^verbatim>\<open>calculateScheduledDuration\<close> is called by \<^verbatim>\<open>collect\<close> and
  defined outside collector.go. The specification gives it as the seconds elapsed
  between the run's creation time and its scheduled (started) time, failing with
  \<open>MissingTimestamp\<close> if either timestamp is absent and with \<open>InvalidOrdering\<close> if the
  scheduled time precedes the creation time. It does not say which number comes with an
  error; the model takes 0, the zero value of a Go \<^verbatim>\<open>float64\<close>. Seconds are exact
  reals: the rounding of a \<^verbatim>\<open>float64\<close> is not modelled.
\<close>

definition calculateScheduledDuration :: "PipelineRun \<Rightarrow> real \<times> error option" where
  "calculateScheduledDuration run =
     (case (creationTimestamp run, startTime run) of
        (Some created, Some scheduled) \<Rightarrow>
          (if scheduled < created then (0, Some InvalidOrdering)
           else (scheduled - created, None))
      | _ \<Rightarrow> (0, Some MissingTimestamp))"

text \<open>
  Modelled from the spec: \<^verbatim>\<open>calculateCompletedDuration\<close> is called by \<^verbatim>\<open>collect\<close> and
  defined outside collector.go. The specification gives it as the seconds elapsed
  between the run's creation time and its completion time, with the same failures,
  the completion timestamp in the place of the scheduled one. (The specification leaves
  open whether the start of the interval is the creation or the scheduled time; the
  model takes the creation time, which it names first.)
\<close>

definition calculateCompletedDuration :: "PipelineRun \<Rightarrow> real \<times> error option" where
  "calculateCompletedDuration run =
     (case (creationTimestamp run, completionTime run) of
        (Some created, Some completed) \<Rightarrow>
          (if completed < created then (0, Some InvalidOrdering)
           else (completed - created, None))
      | _ \<Rightarrow> (0, Some MissingTimestamp))"

subsection \<open>Calculators for stating properties\<close>

text \<open>
  A calculator without effects leaves the world alone. A recording calculator returns
  what a given function returns and adds the call to the world, a list of calls.
\<close>

datatype call = ScheduledCall PipelineRun | CompletedCall PipelineRun

definition stateless :: "(PipelineRun \<Rightarrow> real \<times> error option) \<Rightarrow> 'w calculator" where
  "stateless f pipelineRun w = (f pipelineRun, w)"

definition recording ::
  "(PipelineRun \<Rightarrow> call) \<Rightarrow> (PipelineRun \<Rightarrow> real \<times> error option) \<Rightarrow> call list calculator"
where
  "recording kind f pipelineRun w = (f pipelineRun, w @ [kind pipelineRun])"

section \<open>Properties\<close>

subsection \<open>One run of the loop body, and the loop\<close>

lemma validateLabelValues_ok:
  "ValidString a \<Longrightarrow> ValidString b \<Longrightarrow> validateLabelValues [a, b] 2 = None"
  by (simp add: validateLabelValues_def)

lemma WithLabelValues_Set_ok:
  assumes "length (variableLabels (desc g)) = 2" and "ValidString a" and "ValidString b"
  shows "WithLabelValues_Set g [a, b] v = Inr (g\<lparr>metrics := AList.update [a, b] v (metrics g)\<rparr>)"
  using assms by (simp add: WithLabelValues_Set_def validateLabelValues_ok)

lemma WithLabelValues_Set_desc:
  "WithLabelValues_Set g lvs v = Inr g' \<Longrightarrow> desc g' = desc g"
  by (auto simp: WithLabelValues_Set_def split: option.splits)

text \<open>The world after the loop body: both calculators have run, panic or not.\<close>

lemma world_collect_item:
  "fst (snd (collect_item cs cc pr c w)) = snd (cc pr (snd (cs pr w)))"
  by (simp add: collect_item_def Let_def split: prod.splits sum.splits option.splits)

lemma desc_collect_item:
  "desc (durationScheduled (fst (collect_item cs cc pr c w))) = desc (durationScheduled c) \<and>
   desc (durationCompleted (fst (collect_item cs cc pr c w))) = desc (durationCompleted c)"
  by (auto simp: collect_item_def Let_def dest: WithLabelValues_Set_desc
      split: prod.splits sum.splits option.splits)

lemma collect_item_ok:
  assumes "length (variableLabels (desc (durationScheduled c))) = 2"
    and "length (variableLabels (desc (durationCompleted c))) = 2"
    and "ValidString (Name pr)" and "ValidString (UID pr)"
  shows "snd (snd (collect_item cs cc pr c w)) = None"
    and "metrics (durationScheduled (fst (collect_item cs cc pr c w))) =
           AList.update [Name pr, UID pr] (fst (fst (cs pr w))) (metrics (durationScheduled c))"
    and "metrics (durationCompleted (fst (collect_item cs cc pr c w))) =
           AList.update [Name pr, UID pr] (fst (fst (cc pr (snd (cs pr w)))))
             (metrics (durationCompleted c))"
  using assms
  by (simp_all add: collect_item_def Let_def WithLabelValues_Set_ok
      split: prod.splits option.splits)

lemma desc_collect_items:
  "desc (durationScheduled (fst (collect_items cs cc items c w))) = desc (durationScheduled c) \<and>
   desc (durationCompleted (fst (collect_items cs cc items c w))) = desc (durationCompleted c)"
proof (induction items arbitrary: c w)
  case Nil
  show ?case by simp
next
  case (Cons pr items)
  obtain c1 w1 p where step: "collect_item cs cc pr c w = (c1, w1, p)"
    by (cases "collect_item cs cc pr c w") auto
  have d: "desc (durationScheduled c1) = desc (durationScheduled c)"
          "desc (durationCompleted c1) = desc (durationCompleted c)"
    using desc_collect_item [of cs cc pr c w] by (simp_all add: step)
  show ?case
  proof (cases p)
    case None
    then show ?thesis using Cons.IH [of c1 w1] d by (simp add: step)
  next
    case (Some q)
    then show ?thesis using d by (simp add: step)
  qed
qed

lemma collect_items_ok:
  assumes "length (variableLabels (desc (durationScheduled c))) = 2"
    and "length (variableLabels (desc (durationCompleted c))) = 2"
    and "list_all (\<lambda>pr. ValidString (Name pr) \<and> ValidString (UID pr)) items"
  shows "snd (snd (collect_items cs cc items c w)) = None \<and>
         fst (snd (collect_items cs cc items c w)) =
           foldl (\<lambda>w pr. snd (cc pr (snd (cs pr w)))) w items"
  using assms
proof (induction items arbitrary: c w)
  case Nil
  show ?case by simp
next
  case (Cons pr items)
  obtain c1 w1 p where step: "collect_item cs cc pr c w = (c1, w1, p)"
    by (cases "collect_item cs cc pr c w") auto
  have valid: "ValidString (Name pr)" "ValidString (UID pr)"
    using Cons.prems(3) by simp_all
  have p: "p = None"
    using collect_item_ok(1) [OF Cons.prems(1,2) valid, of cs cc w] by (simp add: step)
  have w1: "w1 = snd (cc pr (snd (cs pr w)))"
    using world_collect_item [of cs cc pr c w] by (simp add: step)
  have d: "length (variableLabels (desc (durationScheduled c1))) = 2"
          "length (variableLabels (desc (durationCompleted c1))) = 2"
    using desc_collect_item [of cs cc pr c w] Cons.prems(1,2) by (simp_all add: step)
  have rest: "list_all (\<lambda>pr. ValidString (Name pr) \<and> ValidString (UID pr)) items"
    using Cons.prems(3) by simp
  show ?case
    using Cons.IH [OF d rest, of w1] by (simp add: step p w1)
qed

lemma gauges_collect_items:
  assumes "length (variableLabels (desc (durationScheduled c))) = 2"
    and "length (variableLabels (desc (durationCompleted c))) = 2"
    and "list_all (\<lambda>pr. ValidString (Name pr) \<and> ValidString (UID pr)) items"
  shows "gauge_at (durationScheduled (fst (collect_items (stateless f) (stateless g) items c w))) k =
           (case map_of (rev (map (\<lambda>pr. ([Name pr, UID pr], fst (f pr))) items)) k of
              Some v \<Rightarrow> Some v
            | None \<Rightarrow> gauge_at (durationScheduled c) k) \<and>
         gauge_at (durationCompleted (fst (collect_items (stateless f) (stateless g) items c w))) k =
           (case map_of (rev (map (\<lambda>pr. ([Name pr, UID pr], fst (g pr))) items)) k of
              Some v \<Rightarrow> Some v
            | None \<Rightarrow> gauge_at (durationCompleted c) k)"
  using assms
proof (induction items arbitrary: c w)
  case Nil
  show ?case by simp
next
  case (Cons pr items)
  obtain c1 w1 p where step: "collect_item (stateless f) (stateless g) pr c w = (c1, w1, p)"
    by (cases "collect_item (stateless f) (stateless g) pr c w") auto
  have valid: "ValidString (Name pr)" "ValidString (UID pr)"
    using Cons.prems(3) by simp_all
  note ok = collect_item_ok [OF Cons.prems(1,2) valid, of "stateless f" "stateless g" w]
  have p: "p = None"
    using ok(1) by (simp add: step)
  have m: "gauge_at (durationScheduled c1) k' =
             (if k' = [Name pr, UID pr] then Some (fst (f pr)) else gauge_at (durationScheduled c) k')"
          "gauge_at (durationCompleted c1) k' =
             (if k' = [Name pr, UID pr] then Some (fst (g pr)) else gauge_at (durationCompleted c) k')"
    for k'
    using ok(2,3) by (simp_all add: step gauge_at_def stateless_def update_conv')
  have d: "length (variableLabels (desc (durationScheduled c1))) = 2"
          "length (variableLabels (desc (durationCompleted c1))) = 2"
    using desc_collect_item [of "stateless f" "stateless g" pr c w] Cons.prems(1,2)
    by (simp_all add: step)
  have rest: "list_all (\<lambda>pr. ValidString (Name pr) \<and> ValidString (UID pr)) items"
    using Cons.prems(3) by simp
  note IH = Cons.IH [OF d rest, of w1]
  show ?case
    by (simp add: step p IH m map_add_def split: option.split)
qed

lemma map_of_rev_labelled:
  assumes "distinct (map f items)" and "pr \<in> set items"
  shows "map_of (rev (map (\<lambda>pr. (f pr, g pr)) items)) (f pr) = Some (g pr)"
proof -
  have "distinct (map fst (rev (map (\<lambda>pr. (f pr, g pr)) items)))"
    using assms(1) by (simp add: rev_map [symmetric] comp_def)
  moreover have "(f pr, g pr) \<in> set (rev (map (\<lambda>pr. (f pr, g pr)) items))"
    using assms(2) by auto
  ultimately show ?thesis by (rule map_of_is_SomeI)
qed

lemma Collect_pass_Inl:
  "Collect_pass cs cc (Inl e) c ch w =
     (c\<lparr>logger := logger c @
          [[(''level'', Str ''error''), (''msg'', Str ''Error while fetching PipelineRuns''),
            (''err'', Err e)],
           [(''level'', Str ''error''), (''msg'', Str ''error collecting pipeline-service metrics''),
            (''error'', Err e)]]\<rparr>,
      ch, w, None)"
  by (simp add: Collect_pass_def collect_def level_Error_Log_def)

lemma Collect_pass_Inr:
  "Collect_pass cs cc (Inr items) c ch w =
     (case collect_items cs cc items c w of
        (c', w', Some p) \<Rightarrow> (c', ch, w', Some p)
      | (c', w', None) \<Rightarrow>
          (c', GaugeVec_Collect (durationCompleted c') (GaugeVec_Collect (durationScheduled c') ch),
           w', None))"
  by (simp add: Collect_pass_def collect_def Let_def split: prod.splits option.splits)

lemma Collect_pass_Inr_ok:
  assumes "length (variableLabels (desc (durationScheduled c))) = 2"
    and "length (variableLabels (desc (durationCompleted c))) = 2"
    and "list_all (\<lambda>pr. ValidString (Name pr) \<and> ValidString (UID pr)) items"
  shows "Collect_pass cs cc (Inr items) c ch w =
     (fst (collect_items cs cc items c w),
      GaugeVec_Collect (durationCompleted (fst (collect_items cs cc items c w)))
        (GaugeVec_Collect (durationScheduled (fst (collect_items cs cc items c w))) ch),
      foldl (\<lambda>w pr. snd (cc pr (snd (cs pr w)))) w items, None)"
proof -
  obtain c' w' p where loop: "collect_items cs cc items c w = (c', w', p)"
    by (cases "collect_items cs cc items c w") auto
  show ?thesis
    using collect_items_ok [OF assms, of cs cc w] by (simp add: Collect_pass_Inr loop)
qed

lemma desc_Collect_pass:
  "desc (durationScheduled (fst (Collect_pass cs cc r c ch w))) = desc (durationScheduled c) \<and>
   desc (durationCompleted (fst (Collect_pass cs cc r c ch w))) = desc (durationCompleted c)"
proof (cases r)
  case (Inl e)
  then show ?thesis by (simp add: Collect_pass_Inl)
next
  case (Inr items)
  obtain c' w' p where loop: "collect_items cs cc items c w = (c', w', p)"
    by (cases "collect_items cs cc items c w") auto
  show ?thesis
    using desc_collect_items [of cs cc items c w]
    by (cases p) (simp_all add: Inr Collect_pass_Inr loop)
qed

lemma foldl_recording:
  "foldl (\<lambda>w pr. snd (recording CompletedCall g pr (snd (recording ScheduledCall f pr w)))) w items =
     w @ concat (map (\<lambda>pr. [ScheduledCall pr, CompletedCall pr]) items)"
  by (induction items arbitrary: w) (simp_all add: recording_def)

lemma children_collect_items:
  assumes "length (variableLabels (desc (durationScheduled c))) = 2"
    and "length (variableLabels (desc (durationCompleted c))) = 2"
    and "list_all (\<lambda>pr. ValidString (Name pr) \<and> ValidString (UID pr)) items"
  shows "fst ` set (metrics (durationScheduled (fst (collect_items cs cc items c w)))) =
           fst ` set (metrics (durationScheduled c)) \<union> (\<lambda>pr. [Name pr, UID pr]) ` set items \<and>
         fst ` set (metrics (durationCompleted (fst (collect_items cs cc items c w)))) =
           fst ` set (metrics (durationCompleted c)) \<union> (\<lambda>pr. [Name pr, UID pr]) ` set items"
  using assms
proof (induction items arbitrary: c w)
  case Nil
  show ?case by simp
next
  case (Cons pr items)
  obtain c1 w1 p where step: "collect_item cs cc pr c w = (c1, w1, p)"
    by (cases "collect_item cs cc pr c w") auto
  have valid: "ValidString (Name pr)" "ValidString (UID pr)"
    using Cons.prems(3) by simp_all
  note ok = collect_item_ok [OF Cons.prems(1,2) valid, of cs cc w]
  have p: "p = None"
    using ok(1) by (simp add: step)
  have m: "fst ` set (metrics (durationScheduled c1)) =
             insert [Name pr, UID pr] (fst ` set (metrics (durationScheduled c)))"
          "fst ` set (metrics (durationCompleted c1)) =
             insert [Name pr, UID pr] (fst ` set (metrics (durationCompleted c)))"
    using ok(2,3) by (simp_all add: step dom_update)
  have d: "length (variableLabels (desc (durationScheduled c1))) = 2"
          "length (variableLabels (desc (durationCompleted c1))) = 2"
    using desc_collect_item [of cs cc pr c w] Cons.prems(1,2) by (simp_all add: step)
  have rest: "list_all (\<lambda>pr. ValidString (Name pr) \<and> ValidString (UID pr)) items"
    using Cons.prems(3) by simp
  note IH = Cons.IH [OF d rest, of w1]
  show ?case
    by (simp add: step p IH m)
qed

lemma gauge_at_child: "gauge_at g k \<noteq> None \<longleftrightarrow> k \<in> fst ` set (metrics g)"
  by (simp add: gauge_at_def map_of_eq_None_iff)

lemma items_have_children:
  assumes "length (variableLabels (desc (durationScheduled c))) = 2"
    and "length (variableLabels (desc (durationCompleted c))) = 2"
    and "list_all (\<lambda>pr. ValidString (Name pr) \<and> ValidString (UID pr)) items"
  shows "list_all (\<lambda>pr.
           gauge_at (durationScheduled (fst (collect_items cs cc items c w))) [Name pr, UID pr] \<noteq> None \<and>
           gauge_at (durationCompleted (fst (collect_items cs cc items c w))) [Name pr, UID pr] \<noteq> None)
         items"
  unfolding list_all_iff gauge_at_child
  using children_collect_items [OF assms, of cs cc w] by simp

subsection \<open>Per-item failures\<close>

text \<open>
  Claim C1, as the code has it. The loop body logs a failed calculation and goes on:
  lines 88 and 89 set both gauges for every item, with the number each calculator
  returned, whether or not it also returned an error. So for a collector whose two
  vectors have two label names, as \<^verbatim>\<open>NewCollector\<close> makes them, and a list whose names
  and UIDs are valid UTF-8 (so that \<^verbatim>\<open>WithLabelValues\<close> does not panic), the pass
  returns, and for every item of the list (the items carrying distinct (name, uid)
  pairs) the scheduled gauge holds the number \<^verbatim>\<open>calculateScheduledDuration\<close> returned
  for the item and the completed gauge the number \<^verbatim>\<open>calculateCompletedDuration\<close>
  returned for it, for any two calculators and any failures among them.
\<close>

theorem collect_sets_both_gauges:
  assumes "length (variableLabels (desc (durationScheduled c))) = 2"
    and "length (variableLabels (desc (durationCompleted c))) = 2"
    and "list_all (\<lambda>pr. ValidString (Name pr) \<and> ValidString (UID pr)) items"
    and "distinct (map (\<lambda>pr. [Name pr, UID pr]) items)"
    and "pr \<in> set items"
  shows "(case Collect_pass (stateless f) (stateless g) (Inr items) c ch w of
            (c', ch', w', p) \<Rightarrow>
              p = None \<and>
              gauge_at (durationScheduled c') [Name pr, UID pr] = Some (fst (f pr)) \<and>
              gauge_at (durationCompleted c') [Name pr, UID pr] = Some (fst (g pr)))"
  using gauges_collect_items [OF assms(1,2,3), of f g w "[Name pr, UID pr]"]
        map_of_rev_labelled [OF assms(4,5), of "\<lambda>pr. fst (f pr)"]
        map_of_rev_labelled [OF assms(4,5), of "\<lambda>pr. fst (g pr)"]
  by (simp add: Collect_pass_Inr_ok [OF assms(1,2,3)])

text \<open>
  The pass of the specification's example: run a has all three timestamps, run b has no
  completion timestamp. Both gauges are set for b.
\<close>

theorem collect_sets_both_gauges_witness:
  "length (variableLabels (desc (durationScheduled (fst (NewCollector []))))) = 2 \<and>
   length (variableLabels (desc (durationCompleted (fst (NewCollector []))))) = 2 \<and>
   list_all (\<lambda>pr. ValidString (Name pr) \<and> ValidString (UID pr))
      [\<lparr>Name = ''a'', UID = ''1'', creationTimestamp = Some 0, startTime = Some 5, completionTime = Some 20\<rparr>,
       \<lparr>Name = ''b'', UID = ''2'', creationTimestamp = Some 0, startTime = Some 5, completionTime = None\<rparr>] \<and>
   distinct (map (\<lambda>pr. [Name pr, UID pr])
      [\<lparr>Name = ''a'', UID = ''1'', creationTimestamp = Some 0, startTime = Some 5, completionTime = Some 20\<rparr>,
       \<lparr>Name = ''b'', UID = ''2'', creationTimestamp = Some 0, startTime = Some 5, completionTime = None\<rparr>]) \<and>
   \<lparr>Name = ''b'', UID = ''2'', creationTimestamp = Some 0, startTime = Some 5, completionTime = None\<rparr>
     \<in> set [\<lparr>Name = ''a'', UID = ''1'', creationTimestamp = Some 0, startTime = Some 5, completionTime = Some 20\<rparr>,
            \<lparr>Name = ''b'', UID = ''2'', creationTimestamp = Some 0, startTime = Some 5, completionTime = None\<rparr>] \<and>
   snd (snd (snd (Collect_pass (stateless calculateScheduledDuration) (stateless calculateCompletedDuration)
      (Inr [\<lparr>Name = ''a'', UID = ''1'', creationTimestamp = Some 0, startTime = Some 5, completionTime = Some 20\<rparr>,
            \<lparr>Name = ''b'', UID = ''2'', creationTimestamp = Some 0, startTime = Some 5, completionTime = None\<rparr>])
      (fst (NewCollector [])) [] ()))) = None \<and>
   gauge_at (durationScheduled (fst (Collect_pass (stateless calculateScheduledDuration) (stateless calculateCompletedDuration)
      (Inr [\<lparr>Name = ''a'', UID = ''1'', creationTimestamp = Some 0, startTime = Some 5, completionTime = Some 20\<rparr>,
            \<lparr>Name = ''b'', UID = ''2'', creationTimestamp = Some 0, startTime = Some 5, completionTime = None\<rparr>])
      (fst (NewCollector [])) [] ()))) [''b'', ''2''] = Some 5 \<and>
   gauge_at (durationCompleted (fst (Collect_pass (stateless calculateScheduledDuration) (stateless calculateCompletedDuration)
      (Inr [\<lparr>Name = ''a'', UID = ''1'', creationTimestamp = Some 0, startTime = Some 5, completionTime = Some 20\<rparr>,
            \<lparr>Name = ''b'', UID = ''2'', creationTimestamp = Some 0, startTime = Some 5, completionTime = None\<rparr>])
      (fst (NewCollector [])) [] ()))) [''b'', ''2''] = Some 0"
proof -
  have h1: "length (variableLabels (desc (durationScheduled (fst (NewCollector []))))) = 2"
    and h2: "length (variableLabels (desc (durationCompleted (fst (NewCollector []))))) = 2"
    by (simp_all add: NewCollector_def NewGaugeVec_def)
  have h3: "list_all (\<lambda>pr. ValidString (Name pr) \<and> ValidString (UID pr))
      [\<lparr>Name = ''a'', UID = ''1'', creationTimestamp = Some 0, startTime = Some 5, completionTime = Some 20\<rparr>,
       \<lparr>Name = ''b'', UID = ''2'', creationTimestamp = Some 0, startTime = Some 5, completionTime = None\<rparr>]"
    by (simp add: ValidString_def)
  have h4: "distinct (map (\<lambda>pr. [Name pr, UID pr])
      [\<lparr>Name = ''a'', UID = ''1'', creationTimestamp = Some 0, startTime = Some 5, completionTime = Some 20\<rparr>,
       \<lparr>Name = ''b'', UID = ''2'', creationTimestamp = Some 0, startTime = Some 5, completionTime = None\<rparr>])"
    by simp
  have h5: "\<lparr>Name = ''b'', UID = ''2'', creationTimestamp = Some 0, startTime = Some 5, completionTime = None\<rparr>
     \<in> set [\<lparr>Name = ''a'', UID = ''1'', creationTimestamp = Some 0, startTime = Some 5, completionTime = Some 20\<rparr>,
            \<lparr>Name = ''b'', UID = ''2'', creationTimestamp = Some 0, startTime = Some 5, completionTime = None\<rparr>]"
    by simp
  show ?thesis
    using h1 h2 h3 h4 h5
      collect_sets_both_gauges [OF h1 h2 h3 h4 h5,
        where f = calculateScheduledDuration and g = calculateCompletedDuration
          and ch = "[]" and w = "()"]
    by (simp add: calculateScheduledDuration_def calculateCompletedDuration_def
        split: prod.splits)
qed

text \<open>
  Claim C1 as the specification states it fails on that pass: the completed-duration
  calculation of run b fails with \<open>MissingTimestamp\<close>, the completed gauge has no child
  for b before the pass, and after the pass it has one, holding 0. It fails the other way
  on a list whose second item has a name that is not valid UTF-8: the scheduled-duration
  calculation of the third item, run c, succeeds, and the scheduled gauge has no child for
  c after the pass, which \<^verbatim>\<open>WithLabelValues\<close> ended with a panic on the second item.
\<close>

theorem completed_gauge_skipped_counterexample:
  "snd (calculateCompletedDuration
      \<lparr>Name = ''b'', UID = ''2'', creationTimestamp = Some 0, startTime = Some 5, completionTime = None\<rparr>)
     = Some MissingTimestamp \<and>
   gauge_at (durationCompleted (fst (NewCollector []))) [''b'', ''2''] = None \<and>
   gauge_at (durationCompleted (fst (Collect_pass (stateless calculateScheduledDuration) (stateless calculateCompletedDuration)
      (Inr [\<lparr>Name = ''a'', UID = ''1'', creationTimestamp = Some 0, startTime = Some 5, completionTime = Some 20\<rparr>,
            \<lparr>Name = ''b'', UID = ''2'', creationTimestamp = Some 0, startTime = Some 5, completionTime = None\<rparr>])
      (fst (NewCollector [])) [] ()))) [''b'', ''2''] = Some 0 \<and>
   snd (calculateScheduledDuration
      \<lparr>Name = ''c'', UID = ''3'', creationTimestamp = Some 0, startTime = Some 1, completionTime = Some 2\<rparr>)
     = None \<and>
   gauge_at (durationScheduled (fst (Collect_pass (stateless calculateScheduledDuration) (stateless calculateCompletedDuration)
      (Inr [\<lparr>Name = ''a'', UID = ''1'', creationTimestamp = Some 0, startTime = Some 5, completionTime = Some 20\<rparr>,
            \<lparr>Name = [CHR 0xFF], UID = ''2'', creationTimestamp = Some 0, startTime = Some 5, completionTime = Some 20\<rparr>,
            \<lparr>Name = ''c'', UID = ''3'', creationTimestamp = Some 0, startTime = Some 1, completionTime = Some 2\<rparr>])
      (fst (NewCollector [])) [] ()))) [''c'', ''3''] = None"
  by (simp add: Collect_pass_def collect_def collect_item_def Let_def gauge_at_def GaugeVec_Collect_def
      WithLabelValues_Set_def validateLabelValues_def ValidString_def NewCollector_def NewGaugeVec_def
      stateless_def recording_def calculateScheduledDuration_def calculateCompletedDuration_def
      level_Error_Log_def)

text \<open>
  Claim C7, as the code has it. In a pass whose listing succeeds, on a collector whose
  two vectors have two label names and a list whose names and UIDs are valid UTF-8, the
  pass returns and the world after it is the world before it taken through one call of
  \<^verbatim>\<open>calculateScheduledDuration\<close> and then one of \<^verbatim>\<open>calculateCompletedDuration\<close> for each
  item of the list in turn, whatever the calculators do and return, and every item of the
  list has a child in both gauge vectors. With calculators that record their calls, the
  calls of the pass are those two per item, in the order of the list, and no others: a
  failed calculation on one item keeps no other item from its two attempts.
\<close>

theorem Collect_pass_attempts:
  assumes "length (variableLabels (desc (durationScheduled c))) = 2"
    and "length (variableLabels (desc (durationCompleted c))) = 2"
    and "list_all (\<lambda>pr. ValidString (Name pr) \<and> ValidString (UID pr)) items"
  shows "(case Collect_pass cs cc (Inr items) c ch w of
            (c', ch', w', p) \<Rightarrow>
              p = None \<and> w' = foldl (\<lambda>w pr. snd (cc pr (snd (cs pr w)))) w items \<and>
              list_all (\<lambda>pr. gauge_at (durationScheduled c') [Name pr, UID pr] \<noteq> None \<and>
                             gauge_at (durationCompleted c') [Name pr, UID pr] \<noteq> None) items) \<and>
         (case Collect_pass (recording ScheduledCall f) (recording CompletedCall g)
                 (Inr items) c ch calls of
            (c', ch', calls', p) \<Rightarrow>
              p = None \<and>
              calls' = calls @ concat (map (\<lambda>pr. [ScheduledCall pr, CompletedCall pr]) items))"
  using items_have_children [OF assms, of cs cc w]
  by (simp add: Collect_pass_Inr_ok [OF assms] foldl_recording)

text \<open>
  A pass over run b, whose completed-duration calculation fails, and then run a: all four
  calls are made.
\<close>

theorem Collect_pass_attempts_witness:
  "length (variableLabels (desc (durationScheduled (fst (NewCollector []))))) = 2 \<and>
   length (variableLabels (desc (durationCompleted (fst (NewCollector []))))) = 2 \<and>
   list_all (\<lambda>pr. ValidString (Name pr) \<and> ValidString (UID pr))
      [\<lparr>Name = ''b'', UID = ''2'', creationTimestamp = Some 0, startTime = Some 5, completionTime = None\<rparr>,
       \<lparr>Name = ''a'', UID = ''1'', creationTimestamp = Some 0, startTime = Some 5, completionTime = Some 20\<rparr>] \<and>
   snd (calculateCompletedDuration
      \<lparr>Name = ''b'', UID = ''2'', creationTimestamp = Some 0, startTime = Some 5, completionTime = None\<rparr>)
     = Some MissingTimestamp \<and>
   snd (snd (Collect_pass (recording ScheduledCall calculateScheduledDuration)
      (recording CompletedCall calculateCompletedDuration)
      (Inr [\<lparr>Name = ''b'', UID = ''2'', creationTimestamp = Some 0, startTime = Some 5, completionTime = None\<rparr>,
            \<lparr>Name = ''a'', UID = ''1'', creationTimestamp = Some 0, startTime = Some 5, completionTime = Some 20\<rparr>])
      (fst (NewCollector [])) [] [])) =
     ([ScheduledCall \<lparr>Name = ''b'', UID = ''2'', creationTimestamp = Some 0, startTime = Some 5, completionTime = None\<rparr>,
       CompletedCall \<lparr>Name = ''b'', UID = ''2'', creationTimestamp = Some 0, startTime = Some 5, completionTime = None\<rparr>,
       ScheduledCall \<lparr>Name = ''a'', UID = ''1'', creationTimestamp = Some 0, startTime = Some 5, completionTime = Some 20\<rparr>,
       CompletedCall \<lparr>Name = ''a'', UID = ''1'', creationTimestamp = Some 0, startTime = Some 5, completionTime = Some 20\<rparr>],
      None)"
proof -
  have h1: "length (variableLabels (desc (durationScheduled (fst (NewCollector []))))) = 2"
    and h2: "length (variableLabels (desc (durationCompleted (fst (NewCollector []))))) = 2"
    by (simp_all add: NewCollector_def NewGaugeVec_def)
  have h3: "list_all (\<lambda>pr. ValidString (Name pr) \<and> ValidString (UID pr))
      [\<lparr>Name = ''b'', UID = ''2'', creationTimestamp = Some 0, startTime = Some 5, completionTime = None\<rparr>,
       \<lparr>Name = ''a'', UID = ''1'', creationTimestamp = Some 0, startTime = Some 5, completionTime = Some 20\<rparr>]"
    by (simp add: ValidString_def)
  show ?thesis
    using h1 h2 h3
      Collect_pass_attempts [OF h1 h2 h3,
        where cs = "recording ScheduledCall calculateScheduledDuration"
          and cc = "recording CompletedCall calculateCompletedDuration"
          and f = calculateScheduledDuration and g = calculateCompletedDuration
          and ch = "[]" and w = "[]" and calls = "[]"]
    by (simp add: calculateCompletedDuration_def split: prod.splits)
qed

text \<open>
  Claim C7 as the specification states it fails on a list whose second item has a name
  that is not valid UTF-8: the listing succeeds, the two calculations are made for the
  first and for the second item, \<^verbatim>\<open>WithLabelValues\<close> panics at line 88 for the second,
  and no calculation is attempted for the third.
\<close>

theorem attempts_for_every_item_counterexample:
  "snd (snd (Collect_pass (recording ScheduledCall calculateScheduledDuration)
      (recording CompletedCall calculateCompletedDuration)
      (Inr [\<lparr>Name = ''a'', UID = ''1'', creationTimestamp = Some 0, startTime = Some 5, completionTime = Some 20\<rparr>,
            \<lparr>Name = [CHR 0xFF], UID = ''2'', creationTimestamp = Some 0, startTime = Some 5, completionTime = Some 20\<rparr>,
            \<lparr>Name = ''c'', UID = ''3'', creationTimestamp = Some 0, startTime = Some 1, completionTime = Some 2\<rparr>])
      (fst (NewCollector [])) [] [])) =
     ([ScheduledCall \<lparr>Name = ''a'', UID = ''1'', creationTimestamp = Some 0, startTime = Some 5, completionTime = Some 20\<rparr>,
       CompletedCall \<lparr>Name = ''a'', UID = ''1'', creationTimestamp = Some 0, startTime = Some 5, completionTime = Some 20\<rparr>,
       ScheduledCall \<lparr>Name = [CHR 0xFF], UID = ''2'', creationTimestamp = Some 0, startTime = Some 5, completionTime = Some 20\<rparr>,
       CompletedCall \<lparr>Name = [CHR 0xFF], UID = ''2'', creationTimestamp = Some 0, startTime = Some 5, completionTime = Some 20\<rparr>],
      Some (InvalidLabelValue [CHR 0xFF]))"
  by (simp add: Collect_pass_def collect_def collect_item_def Let_def gauge_at_def GaugeVec_Collect_def
      WithLabelValues_Set_def validateLabelValues_def ValidString_def NewCollector_def NewGaugeVec_def
      stateless_def recording_def calculateScheduledDuration_def calculateCompletedDuration_def
      level_Error_Log_def)

text \<open>
  Claim C9, as the code has it. On a collector whose two vectors have two label names
  and a list whose names and UIDs are valid UTF-8, for any calculators and however many
  of their calculations fail, \<^verbatim>\<open>collect\<close> returns \<^verbatim>\<open>nil\<close> and \<^verbatim>\<open>Collect\<close> returns to
  its caller without a panic, with the state, the channel and the world \<^verbatim>\<open>collect\<close>
  left: it does not take its failure branch. The error \<^verbatim>\<open>collect\<close> returns when the
  listing fails is the listing's error.
\<close>

theorem item_errors_not_propagated:
  assumes "length (variableLabels (desc (durationScheduled c))) = 2"
    and "length (variableLabels (desc (durationCompleted c))) = 2"
    and "list_all (\<lambda>pr. ValidString (Name pr) \<and> ValidString (UID pr)) items"
  shows "(case collect cs cc (Inr items) c ch w of
            (c', ch', w', r) \<Rightarrow>
              r = Inr None \<and> Collect_pass cs cc (Inr items) c ch w = (c', ch', w', None)) \<and>
         (case collect cs cc (Inl e) c ch w of (c', ch', w', r) \<Rightarrow> r = Inr (Some e))"
proof -
  obtain c' w' p where loop: "collect_items cs cc items c w = (c', w', p)"
    by (cases "collect_items cs cc items c w") auto
  have "p = None"
    using collect_items_ok [OF assms, of cs cc w] by (simp add: loop)
  then show ?thesis
    by (simp add: Collect_pass_def collect_def Let_def loop)
qed

text \<open>A pass over run b, whose completed-duration calculation fails.\<close>

theorem item_errors_not_propagated_witness:
  "length (variableLabels (desc (durationScheduled (fst (NewCollector []))))) = 2 \<and>
   length (variableLabels (desc (durationCompleted (fst (NewCollector []))))) = 2 \<and>
   list_all (\<lambda>pr. ValidString (Name pr) \<and> ValidString (UID pr))
      [\<lparr>Name = ''b'', UID = ''2'', creationTimestamp = Some 0, startTime = Some 5, completionTime = None\<rparr>] \<and>
   snd (calculateCompletedDuration
      \<lparr>Name = ''b'', UID = ''2'', creationTimestamp = Some 0, startTime = Some 5, completionTime = None\<rparr>)
     = Some MissingTimestamp \<and>
   snd (snd (snd (collect (stateless calculateScheduledDuration) (stateless calculateCompletedDuration)
      (Inr [\<lparr>Name = ''b'', UID = ''2'', creationTimestamp = Some 0, startTime = Some 5, completionTime = None\<rparr>])
      (fst (NewCollector [])) [] ()))) = Inr None \<and>
   snd (snd (snd (Collect_pass (stateless calculateScheduledDuration) (stateless calculateCompletedDuration)
      (Inr [\<lparr>Name = ''b'', UID = ''2'', creationTimestamp = Some 0, startTime = Some 5, completionTime = None\<rparr>])
      (fst (NewCollector [])) [] ()))) = None"
proof -
  have h1: "length (variableLabels (desc (durationScheduled (fst (NewCollector []))))) = 2"
    and h2: "length (variableLabels (desc (durationCompleted (fst (NewCollector []))))) = 2"
    by (simp_all add: NewCollector_def NewGaugeVec_def)
  have h3: "list_all (\<lambda>pr. ValidString (Name pr) \<and> ValidString (UID pr))
      [\<lparr>Name = ''b'', UID = ''2'', creationTimestamp = Some 0, startTime = Some 5, completionTime = None\<rparr>]"
    by (simp add: ValidString_def)
  show ?thesis
    using h1 h2 h3
      item_errors_not_propagated [OF h1 h2 h3,
        where cs = "stateless calculateScheduledDuration"
          and cc = "stateless calculateCompletedDuration"
          and ch = "[]" and w = "()" and e = MissingTimestamp]
    by (auto simp: calculateCompletedDuration_def split: prod.splits)
qed

text \<open>
  Claim C9 as the specification states it fails on the list whose second item has a name
  that is not valid UTF-8: no calculation fails, and \<^verbatim>\<open>Collect\<close> does not return
  normally; it panics at line 88 with nothing sent on the channel.
\<close>

theorem Collect_returns_normally_counterexample:
  "snd (calculateScheduledDuration
      \<lparr>Name = [CHR 0xFF], UID = ''2'', creationTimestamp = Some 0, startTime = Some 5, completionTime = Some 20\<rparr>) = None \<and>
   snd (calculateCompletedDuration
      \<lparr>Name = [CHR 0xFF], UID = ''2'', creationTimestamp = Some 0, startTime = Some 5, completionTime = Some 20\<rparr>) = None \<and>
   snd (Collect_pass (stateless calculateScheduledDuration) (stateless calculateCompletedDuration)
      (Inr [\<lparr>Name = ''a'', UID = ''1'', creationTimestamp = Some 0, startTime = Some 5, completionTime = Some 20\<rparr>,
            \<lparr>Name = [CHR 0xFF], UID = ''2'', creationTimestamp = Some 0, startTime = Some 5, completionTime = Some 20\<rparr>,
            \<lparr>Name = ''c'', UID = ''3'', creationTimestamp = Some 0, startTime = Some 1, completionTime = Some 2\<rparr>])
      (fst (NewCollector [])) [] ()) =
     ([], (), Some (InvalidLabelValue [CHR 0xFF]))"
  by (simp add: Collect_pass_def collect_def collect_item_def Let_def gauge_at_def GaugeVec_Collect_def
      WithLabelValues_Set_def validateLabelValues_def ValidString_def NewCollector_def NewGaugeVec_def
      stateless_def recording_def calculateScheduledDuration_def calculateCompletedDuration_def
      level_Error_Log_def)

subsection \<open>A failed listing\<close>

text \<open>
  Claim C3: when \<^verbatim>\<open>getPipelineRuns\<close> fails, \<^verbatim>\<open>collect\<close> returns that error, sends
  nothing on the channel and leaves both gauge vectors as they were.
\<close>

theorem collect_source_failure:
  "(case collect cs cc (Inl e) c ch w of
      (c', ch', w', r) \<Rightarrow>
        ch' = ch \<and> r = Inr (Some e) \<and>
        durationScheduled c' = durationScheduled c \<and>
        durationCompleted c' = durationCompleted c \<and> w' = w)"
  by (simp add: collect_def)

text \<open>
  Claim C2, as the code has it. When the listing fails, \<^verbatim>\<open>Collect\<close> sends nothing on
  the channel; both gauge vectors stay as the pass before left them, nothing lost and
  nothing added; and two error records are written, the first by \<^verbatim>\<open>collect\<close> and the
  second by \<^verbatim>\<open>Collect\<close>. The call returns without a panic.
\<close>

theorem Collect_pass_source_failure:
  "(case Collect_pass cs cc (Inl e) c ch w of
      (c', ch', w', p) \<Rightarrow>
        ch' = ch \<and>
        durationScheduled c' = durationScheduled c \<and>
        durationCompleted c' = durationCompleted c \<and>
        logger c' =
          logger c @
            [[(''level'', Str ''error''), (''msg'', Str ''Error while fetching PipelineRuns''),
              (''err'', Err e)],
             [(''level'', Str ''error''),
              (''msg'', Str ''error collecting pipeline-service metrics''),
              (''error'', Err e)]] \<and>
        w' = w \<and> p = None)"
  by (simp add: Collect_pass_Inl)

text \<open>
  Claim C2 as the specification states it fails after a successful pass over run a: that
  pass sends two samples and logs nothing; the failed pass that follows, on a channel of
  its own, sends none, and leaves two records in the log.
\<close>

theorem failed_pass_same_snapshot_counterexample:
  "fst (snd (Collect_pass (stateless calculateScheduledDuration) (stateless calculateCompletedDuration)
      (Inr [\<lparr>Name = ''a'', UID = ''1'', creationTimestamp = Some 0, startTime = Some 5, completionTime = Some 20\<rparr>])
      (fst (NewCollector [])) [] ())) =
     [\<lparr>metric_desc = \<lparr>fqName = ''pipelinerun_duration_scheduled_seconds'',
          helpText = ''Duration in seconds for a PipelineRun to be scheduled.'',
          variableLabels = [''name'', ''uid'']\<rparr>,
        labelValues = [''a'', ''1''], gauge_value = 5\<rparr>,
      \<lparr>metric_desc = \<lparr>fqName = ''pipelinerun_duration_completed_seconds'',
          helpText = ''Duration in seconds for a PipelineRun to complete.'',
          variableLabels = [''name'', ''uid'']\<rparr>,
        labelValues = [''a'', ''1''], gauge_value = 20\<rparr>] \<and>
   fst (snd (Collect_pass (stateless calculateScheduledDuration) (stateless calculateCompletedDuration)
      (Inl (SourceUnavailable ''timeout''))
      (fst (Collect_pass (stateless calculateScheduledDuration) (stateless calculateCompletedDuration)
        (Inr [\<lparr>Name = ''a'', UID = ''1'', creationTimestamp = Some 0, startTime = Some 5, completionTime = Some 20\<rparr>])
        (fst (NewCollector [])) [] ())) [] ())) = [] \<and>
   length (logger (fst (Collect_pass (stateless calculateScheduledDuration) (stateless calculateCompletedDuration)
      (Inr [\<lparr>Name = ''a'', UID = ''1'', creationTimestamp = Some 0, startTime = Some 5, completionTime = Some 20\<rparr>])
      (fst (NewCollector [])) [] ()))) = 0 \<and>
   length (logger (fst (Collect_pass (stateless calculateScheduledDuration) (stateless calculateCompletedDuration)
      (Inl (SourceUnavailable ''timeout''))
      (fst (Collect_pass (stateless calculateScheduledDuration) (stateless calculateCompletedDuration)
        (Inr [\<lparr>Name = ''a'', UID = ''1'', creationTimestamp = Some 0, startTime = Some 5, completionTime = Some 20\<rparr>])
        (fst (NewCollector [])) [] ())) [] ()))) = 2"
  by (simp add: Collect_pass_def collect_def collect_item_def Let_def gauge_at_def GaugeVec_Collect_def
      WithLabelValues_Set_def validateLabelValues_def ValidString_def NewCollector_def NewGaugeVec_def
      stateless_def recording_def calculateScheduledDuration_def calculateCompletedDuration_def
      level_Error_Log_def)

subsection \<open>Construction and descriptors\<close>

text \<open>
  Claim C6: \<^verbatim>\<open>Describe\<close> on a new collector sends exactly two descriptors, named
  pipelinerun_duration_scheduled_seconds and pipelinerun_duration_completed_seconds,
  each with the label names name and uid. A collection pass changes nothing of what
  \<^verbatim>\<open>Describe\<close> sends, and every metric a pass sends carries one of the two descriptors.
\<close>

theorem Describe_two_gauge_families:
  "Describe (fst (NewCollector lg)) ch =
     ch @ [\<lparr>fqName = ''pipelinerun_duration_scheduled_seconds'',
             helpText = ''Duration in seconds for a PipelineRun to be scheduled.'',
             variableLabels = [''name'', ''uid'']\<rparr>,
           \<lparr>fqName = ''pipelinerun_duration_completed_seconds'',
             helpText = ''Duration in seconds for a PipelineRun to complete.'',
             variableLabels = [''name'', ''uid'']\<rparr>] \<and>
   Describe (fst (Collect_pass cs cc r c ch' w)) ch = Describe c ch \<and>
   metric_desc ` set (fst (snd (Collect_pass cs cc r c [] w))) \<subseteq>
     {desc (durationScheduled c), desc (durationCompleted c)}"
proof (intro conjI)
  show "Describe (fst (NewCollector lg)) ch =
     ch @ [\<lparr>fqName = ''pipelinerun_duration_scheduled_seconds'',
             helpText = ''Duration in seconds for a PipelineRun to be scheduled.'',
             variableLabels = [''name'', ''uid'']\<rparr>,
           \<lparr>fqName = ''pipelinerun_duration_completed_seconds'',
             helpText = ''Duration in seconds for a PipelineRun to complete.'',
             variableLabels = [''name'', ''uid'']\<rparr>]"
    by (simp add: Describe_def GaugeVec_Describe_def NewCollector_def NewGaugeVec_def)
  show "Describe (fst (Collect_pass cs cc r c ch' w)) ch = Describe c ch"
    by (simp add: Describe_def GaugeVec_Describe_def desc_Collect_pass)
  show "metric_desc ` set (fst (snd (Collect_pass cs cc r c [] w))) \<subseteq>
     {desc (durationScheduled c), desc (durationCompleted c)}"
  proof (cases r)
    case (Inl e)
    then show ?thesis by (simp add: Collect_pass_Inl)
  next
    case (Inr items)
    obtain c1 w1 p where loop: "collect_items cs cc items c w = (c1, w1, p)"
      by (cases "collect_items cs cc items c w") auto
    show ?thesis
      using desc_collect_items [of cs cc items c w]
      by (cases p) (auto simp: Inr Collect_pass_Inr loop GaugeVec_Collect_def)
  qed
qed

text \<open>
  Claim C10: \<^verbatim>\<open>NewCollector\<close> returns a \<^verbatim>\<open>nil\<close> error for every logger, beside a
  collector that holds the logger and two gauge vectors without children.
\<close>

theorem NewCollector_never_fails:
  "snd (NewCollector lg) = None \<and> logger (fst (NewCollector lg)) = lg \<and>
   metrics (durationScheduled (fst (NewCollector lg))) = [] \<and>
   metrics (durationCompleted (fst (NewCollector lg))) = []"
  by (simp add: NewCollector_def NewGaugeVec_def)

subsection \<open>The scheduled duration\<close>

text \<open>
  Claim C4: for a run whose creation and scheduled timestamps are both present, the
  scheduled one not earlier than the creation one, \<^verbatim>\<open>calculateScheduledDuration\<close>
  returns the scheduled time minus the creation time with no error, and the number
  is not negative.
\<close>

theorem calculateScheduledDuration_elapsed:
  assumes "creationTimestamp run = Some created" and "startTime run = Some scheduled"
    and "created \<le> scheduled"
  shows "calculateScheduledDuration run = (scheduled - created, None) \<and>
         0 \<le> fst (calculateScheduledDuration run)"
  using assms by (simp add: calculateScheduledDuration_def)

theorem calculateScheduledDuration_elapsed_witness:
  "creationTimestamp \<lparr>Name = ''a'', UID = ''1'', creationTimestamp = Some 3, startTime = Some 8, completionTime = None\<rparr> = Some 3 \<and>
   startTime \<lparr>Name = ''a'', UID = ''1'', creationTimestamp = Some 3, startTime = Some 8, completionTime = None\<rparr> = Some 8 \<and>
   (3::real) \<le> 8 \<and>
   calculateScheduledDuration
     \<lparr>Name = ''a'', UID = ''1'', creationTimestamp = Some 3, startTime = Some 8, completionTime = None\<rparr>
     = (5, None)"
  using calculateScheduledDuration_elapsed [of
      "\<lparr>Name = ''a'', UID = ''1'', creationTimestamp = Some 3, startTime = Some 8, completionTime = None\<rparr>" 3 8]
  by simp

text \<open>
  Claim C5: for a run without a scheduled timestamp, \<^verbatim>\<open>calculateScheduledDuration\<close>
  returns the error \<open>MissingTimestamp\<close>; being a total function, it returns on every
  run.
\<close>

theorem calculateScheduledDuration_missing_start:
  assumes "startTime run = None"
  shows "snd (calculateScheduledDuration run) = Some MissingTimestamp"
  using assms by (simp add: calculateScheduledDuration_def split: option.splits)

theorem calculateScheduledDuration_missing_start_witness:
  "startTime \<lparr>Name = ''a'', UID = ''1'', creationTimestamp = Some 3, startTime = None, completionTime = None\<rparr> = None \<and>
   snd (calculateScheduledDuration
     \<lparr>Name = ''a'', UID = ''1'', creationTimestamp = Some 3, startTime = None, completionTime = None\<rparr>)
     = Some MissingTimestamp"
  using calculateScheduledDuration_missing_start [of
      "\<lparr>Name = ''a'', UID = ''1'', creationTimestamp = Some 3, startTime = None, completionTime = None\<rparr>"]
  by simp

end
